theory Spec2Isabelle
  imports Main
begin

section \<open>JavaScript values\<close>

text \<open>
  The values the functions of \<^verbatim>\<open>group.js\<close> and \<^verbatim>\<open>construct.js\<close> receive. An object and a
  function carry the table of the data properties visible on them (their own and the
  inherited ones); an array carries its elements. Numbers are the integers and NaN: the
  code only tests a number for truthiness.

  A value can have accessor properties, and a proxy answers a read through its trap: the
  read of such a property runs code, which returns a value or raises, and need not do the
  same at the next read. \<open>JWithGetters gs v\<close> is the value \<open>v\<close> with the accessors \<open>gs\<close>
  visible on it, before the properties of \<open>v\<close>; each accessor is the list of what its
  successive reads do. A getter that has nothing more to do returns \<^verbatim>\<open>undefined\<close>. What a
  getter does to other objects is not part of the model.
\<close>

datatype error = TypeError | Thrown

datatype jsval =
    JUndefined
  | JNull
  | JBool bool
  | JNum int
  | JNaN
  | JStr string
  | JArr "jsval list"
  | JObj "(string \<times> jsval) list"
  | JFun "(string \<times> jsval) list"
  | JWithGetters "(string \<times> getter_result list) list" jsval
and getter_result =
    Returns jsval
  | Raises error

text \<open>The \<^verbatim>\<open>typeof\<close> operator.\<close>

fun typeof :: "jsval \<Rightarrow> string" where
  "typeof JUndefined = ''undefined''"
| "typeof JNull = ''object''"
| "typeof (JBool b) = ''boolean''"
| "typeof (JNum n) = ''number''"
| "typeof JNaN = ''number''"
| "typeof (JStr s) = ''string''"
| "typeof (JArr xs) = ''object''"
| "typeof (JObj ps) = ''object''"
| "typeof (JFun ps) = ''function''"
| "typeof (JWithGetters gs v) = typeof v"

text \<open>Truthiness, as \<^verbatim>\<open>if (v)\<close> and \<^verbatim>\<open>!v\<close> test it.\<close>

fun to_boolean :: "jsval \<Rightarrow> bool" where
  "to_boolean JUndefined = False"
| "to_boolean JNull = False"
| "to_boolean (JBool b) = b"
| "to_boolean (JNum n) = (n \<noteq> 0)"
| "to_boolean JNaN = False"
| "to_boolean (JStr s) = (s \<noteq> [])"
| "to_boolean (JArr xs) = True"
| "to_boolean (JObj ps) = True"
| "to_boolean (JFun ps) = True"
| "to_boolean (JWithGetters gs v) = to_boolean v"

text \<open>The operator \<^verbatim>\<open>!v\<close>.\<close>

definition js_not :: "jsval \<Rightarrow> jsval" where
  "js_not v = JBool (\<not> to_boolean v)"

text \<open>\<^verbatim>\<open>undefined\<close> and \<^verbatim>\<open>null\<close>, of which no property can be read.\<close>

fun nullish :: "jsval \<Rightarrow> bool" where
  "nullish JUndefined = True"
| "nullish JNull = True"
| "nullish (JWithGetters gs v) = nullish v"
| "nullish v = False"

text \<open>A value without accessors of its own.\<close>

fun is_plain :: "jsval \<Rightarrow> bool" where
  "is_plain (JWithGetters gs v) = False"
| "is_plain v = True"

text \<open>One read of an accessor: what the getter does this time.\<close>

fun run_getter :: "getter_result list \<Rightarrow> error + jsval" where
  "run_getter [] = Inr JUndefined"
| "run_getter (Returns v # rs) = Inr v"
| "run_getter (Raises e # rs) = Inl e"

text \<open>The accessors after one read of the accessor named \<open>k\<close>.\<close>

fun consume :: "string \<Rightarrow> (string \<times> getter_result list) list \<Rightarrow> (string \<times> getter_result list) list" where
  "consume k [] = []"
| "consume k ((k', rs) # gs) = (if k' = k then (k', tl rs) # gs else (k', rs) # consume k gs)"

text \<open>
  Reading a named property, \<^verbatim>\<open>v.name\<close>. On \<^verbatim>\<open>undefined\<close> and \<^verbatim>\<open>null\<close> the read raises a
  TypeError. An accessor runs its getter, which returns or raises. An object or a
  function answers from its table, and \<^verbatim>\<open>undefined\<close> for a name that is not there. The
  data properties that primitives and arrays inherit from the built-in prototypes are not
  modelled: the code reads a named property from a function only.
\<close>

fun get_prop :: "jsval \<Rightarrow> string \<Rightarrow> error + jsval" where
  "get_prop JUndefined k = Inl TypeError"
| "get_prop JNull k = Inl TypeError"
| "get_prop (JObj ps) k = Inr (case map_of ps k of None \<Rightarrow> JUndefined | Some v \<Rightarrow> v)"
| "get_prop (JFun ps) k = Inr (case map_of ps k of None \<Rightarrow> JUndefined | Some v \<Rightarrow> v)"
| "get_prop (JWithGetters gs v) k =
     (if nullish v then Inl TypeError
      else (case map_of gs k of None \<Rightarrow> get_prop v k | Some rs \<Rightarrow> run_getter rs))"
| "get_prop v k = Inr JUndefined"

text \<open>
  The property key of an array index: \<^verbatim>\<open>v[0]\<close> reads the property named \<^verbatim>\<open>"0"\<close>.
\<close>

function key_of_index :: "nat \<Rightarrow> string" where
  "key_of_index n =
     (if n < 10 then [''0123456789'' ! n]
      else key_of_index (n div 10) @ [''0123456789'' ! (n mod 10)])"
  by pat_completeness auto
termination
  by (relation "measure id") auto

declare key_of_index.simps [simp del]

text \<open>
  Reading an indexed property, \<^verbatim>\<open>v[n]\<close>. On \<^verbatim>\<open>undefined\<close> and \<^verbatim>\<open>null\<close> the read raises a
  TypeError. An accessor under the index runs its getter, which returns or raises. An
  array answers with its element and a string with its character, and both with
  \<^verbatim>\<open>undefined\<close> out of range; an object or a function looks the key up in its table;
  booleans and numbers have no indexed property.
\<close>

fun get_index :: "jsval \<Rightarrow> nat \<Rightarrow> error + jsval" where
  "get_index JUndefined n = Inl TypeError"
| "get_index JNull n = Inl TypeError"
| "get_index (JArr xs) n = Inr (if n < length xs then xs ! n else JUndefined)"
| "get_index (JStr s) n = Inr (if n < length s then JStr [s ! n] else JUndefined)"
| "get_index (JObj ps) n =
     Inr (case map_of ps (key_of_index n) of None \<Rightarrow> JUndefined | Some v \<Rightarrow> v)"
| "get_index (JFun ps) n =
     Inr (case map_of ps (key_of_index n) of None \<Rightarrow> JUndefined | Some v \<Rightarrow> v)"
| "get_index (JWithGetters gs v) n =
     (if nullish v then Inl TypeError
      else (case map_of gs (key_of_index n) of
              None \<Rightarrow> get_index v n
            | Some rs \<Rightarrow> run_getter rs))"
| "get_index v n = Inr JUndefined"

text \<open>
  The value after the read \<^verbatim>\<open>v[n]\<close>: the getter that ran has done one of its reads. A
  value without accessors is as before.
\<close>

fun after_index :: "jsval \<Rightarrow> nat \<Rightarrow> jsval" where
  "after_index (JWithGetters gs v) n =
     (case map_of gs (key_of_index n) of
        None \<Rightarrow> JWithGetters gs (after_index v n)
      | Some rs \<Rightarrow> JWithGetters (consume (key_of_index n) gs) v)"
| "after_index v n = v"

text \<open>
  A value of which \<^verbatim>\<open>v[0]\<close> can be read twice in a row: no read is of \<^verbatim>\<open>undefined\<close> or
  \<^verbatim>\<open>null\<close>, and no getter raises.
\<close>

definition readable :: "jsval \<Rightarrow> bool" where
  "readable v =
     (case get_index v 0 of
        Inl e \<Rightarrow> False
      | Inr x \<Rightarrow> (case get_index (after_index v 0) 0 of Inl e \<Rightarrow> False | Inr y \<Rightarrow> True))"

section \<open>construct.js\<close>

text \<open>
  \<^verbatim>\<open>return typeof obj === 'function' && typeof obj.extend === 'function';\<close>
  The operator \<^verbatim>\<open>&&\<close> returns its left operand when that is falsy, without evaluating the
  right one, and its right operand otherwise.
\<close>

definition is_constructor :: "jsval \<Rightarrow> error + jsval" where
  "is_constructor obj =
     (let l = JBool (typeof obj = ''function'') in
      if to_boolean l then
        (case get_prop obj ''extend'' of
           Inl e \<Rightarrow> Inl e
         | Inr ext \<Rightarrow> Inr (JBool (typeof ext = ''function'')))
      else Inr l)"

section \<open>group.js\<close>

subsection \<open>The entity's facets and dialog\<close>

text \<open>
  The values of the framework that the specifications of \<^verbatim>\<open>IPA.group.entity\<close> refer to:
  \<^verbatim>\<open>IPA.serial_associator\<close>, \<^verbatim>\<open>IPA.group_adder_dialog\<close> (as a value, the factory of the
  dialog) and the message \<^verbatim>\<open>IPA.messages.objects.group.posix\<close>.
\<close>

record ipa =
  serial_associator :: jsval
  group_adder_dialog :: jsval
  messages_objects_group_posix :: jsval

text \<open>
  \<^verbatim>\<open>init\<close> calls \<^verbatim>\<open>entity_init\<close> and then the entity's builder, one method after the other,
  each with an object literal. The model returns the calls the builder receives, in order.
\<close>

datatype builder_call =
    Search_facet jsval
  | Details_facet jsval
  | Association_facet jsval
  | Standard_association_facets
  | Adder_dialog jsval

definition init :: "ipa \<Rightarrow> builder_call list" where
  "init I =
    [Search_facet (JObj
       [(''columns'', JArr [JStr ''cn'', JStr ''gidnumber'', JStr ''description''])]),
     Details_facet (JObj
       [(''sections'', JArr
          [JObj
             [(''name'', JStr ''details''),
              (''fields'', JArr
                 [JStr ''cn'',
                  JObj [(''type'', JStr ''textarea''), (''name'', JStr ''description'')],
                  JStr ''gidnumber''])]])]),
     Association_facet (JObj
       [(''name'', JStr ''member_user''),
        (''columns'', JArr
           [JStr ''uid'', JStr ''uidnumber'', JStr ''mail'', JStr ''telephonenumber'',
            JStr ''title'']),
        (''adder_columns'', JArr
           [JObj [(''name'', JStr ''cn''), (''width'', JStr ''100px'')],
            JObj [(''name'', JStr ''uid''), (''primary_key'', JBool True),
                  (''width'', JStr ''100px'')]])]),
     Association_facet (JObj
       [(''name'', JStr ''memberof_group''), (''associator'', serial_associator I)]),
     Association_facet (JObj
       [(''name'', JStr ''memberof_netgroup''), (''associator'', serial_associator I)]),
     Association_facet (JObj
       [(''name'', JStr ''memberof_role''), (''associator'', serial_associator I)]),
     Association_facet (JObj
       [(''name'', JStr ''memberof_hbacrule''), (''associator'', serial_associator I),
        (''add_method'', JStr ''add_user''), (''remove_method'', JStr ''remove_user'')]),
     Association_facet (JObj
       [(''name'', JStr ''memberof_sudorule''), (''associator'', serial_associator I),
        (''add_method'', JStr ''add_user''), (''remove_method'', JStr ''remove_user'')]),
     Standard_association_facets,
     Adder_dialog (JObj
       [(''factory'', group_adder_dialog I),
        (''fields'', JArr
           [JStr ''cn'',
            JObj [(''type'', JStr ''textarea''), (''name'', JStr ''description'')],
            JObj [(''type'', JStr ''nonposix_checkbox''), (''name'', JStr ''nonposix''),
                  (''label'', messages_objects_group_posix I), (''checked'', JBool True)],
            JStr ''gidnumber''])])]"

fun is_search_facet :: "builder_call \<Rightarrow> bool" where
  "is_search_facet (Search_facet spec) = True"
| "is_search_facet c = False"

fun is_details_facet :: "builder_call \<Rightarrow> bool" where
  "is_details_facet (Details_facet spec) = True"
| "is_details_facet c = False"

text \<open>The field specifications that \<^verbatim>\<open>init\<close> gives to \<^verbatim>\<open>adder_dialog\<close>.\<close>

fun adder_dialog_fields :: "builder_call list \<Rightarrow> jsval list" where
  "adder_dialog_fields [] = []"
| "adder_dialog_fields (Adder_dialog spec # cs) =
     (case get_prop spec ''fields'' of Inr (JArr fs) \<Rightarrow> fs | _ \<Rightarrow> [])"
| "adder_dialog_fields (c # cs) = adder_dialog_fields cs"

subsection \<open>The non-posix checkbox\<close>

text \<open>
  Modelled from the spec: \<^verbatim>\<open>IPA.checkbox_widget\<close>, the framework's checkbox, is not among
  the sources. Its state is whether the box is checked. The widget is created in the
  state its specification declares (\<^verbatim>\<open>checked\<close>, unchecked when the specification has
  none), and \<^verbatim>\<open>checkbox_save\<close> returns the state as a one-element array.
\<close>

record checkbox =
  checked :: bool

definition checkbox_widget :: "jsval \<Rightarrow> error + checkbox" where
  "checkbox_widget spec =
     (case get_prop spec ''checked'' of
        Inl e \<Rightarrow> Inl e
      | Inr c \<Rightarrow> Inr \<lparr>checked = to_boolean c\<rparr>)"

definition checkbox_save :: "checkbox \<Rightarrow> jsval" where
  "checkbox_save that = JArr [JBool (checked that)]"

text \<open>
  \<^verbatim>\<open>IPA.group_nonposix_checkbox_widget\<close>: \<^verbatim>\<open>spec = spec || {}\<close>, then the framework's
  checkbox for that specification, with \<^verbatim>\<open>save\<close> replaced.
\<close>

definition group_nonposix_checkbox_widget :: "jsval \<Rightarrow> error + checkbox" where
  "group_nonposix_checkbox_widget spec =
     checkbox_widget (if to_boolean spec then spec else JObj [])"

text \<open>
  \<^verbatim>\<open>var value = that.checkbox_save()[0]; return [!value];\<close>
  The framework's \<^verbatim>\<open>checkbox_save\<close> is a parameter: \<^verbatim>\<open>save\<close> works on whatever value it
  returns for the widget.
\<close>

definition save :: "('w \<Rightarrow> jsval) \<Rightarrow> 'w \<Rightarrow> error + jsval" where
  "save cb_save that =
     (case get_index (cb_save that) 0 of
        Inl e \<Rightarrow> Inl e
      | Inr v \<Rightarrow> Inr (JArr [js_not v]))"

text \<open>\<^verbatim>\<open>IPA.widget_factories['nonposix_checkbox'] = IPA.group_nonposix_checkbox_widget\<close>\<close>

definition widget_factories :: "string \<rightharpoonup> (jsval \<Rightarrow> error + checkbox)" where
  "widget_factories = [''nonposix_checkbox'' \<mapsto> group_nonposix_checkbox_widget]"

subsection \<open>The adder dialog\<close>

text \<open>
  A field of the dialog, as far as the handler touches it: whether it is enabled, and
  the value it holds. Whatever else the framework keeps in a field is the record's
  extension. The dialog's \<^verbatim>\<open>fields\<close> is the table \<open>dialog_fields\<close>.
\<close>

record field =
  enabled :: bool
  stored_value :: jsval

record 'a adder_dialog =
  dialog_fields :: "string \<rightharpoonup> 'a field_scheme"

text \<open>
  Modelled from the spec: \<^verbatim>\<open>set_enabled\<close>, a method of the framework's field, which is not
  among the sources. \<^verbatim>\<open>set_enabled(b)\<close> makes the field enabled or disabled and changes
  nothing else of it.
\<close>

definition set_enabled :: "bool \<Rightarrow> 'a field_scheme \<Rightarrow> 'a field_scheme" where
  "set_enabled b f = f\<lparr>enabled := b\<rparr>"

text \<open>
  Modelled from the spec: \<^verbatim>\<open>fields.get_field\<close>, of the framework's dialog, which is not
  among the sources. \<^verbatim>\<open>get_field(name)\<close> is the dialog's field of that name, and
  \<^verbatim>\<open>undefined\<close> (\<open>None\<close>) when the dialog has none.
\<close>

definition get_field :: "'a adder_dialog \<Rightarrow> string \<Rightarrow> 'a field_scheme option" where
  "get_field that name = dialog_fields that name"

text \<open>
  \<^verbatim>\<open>that.on_posix_change = function (value) { ... }\<close>
  The framework's \<^verbatim>\<open>reset()\<close> is a parameter: any function on the state of a field.
  The field object is shared with the dialog, so the calls on it change the dialog's
  field. The code reads \<^verbatim>\<open>value[0]\<close> twice, for the test and for the argument of
  \<^verbatim>\<open>set_enabled\<close>. A method call on \<^verbatim>\<open>undefined\<close> raises a TypeError, before its argument
  is evaluated. An error leaves the dialog as the calls before it have made it: the
  result of a failed call is the error and that dialog.
\<close>

definition on_posix_change ::
  "('a field_scheme \<Rightarrow> 'a field_scheme) \<Rightarrow> 'a adder_dialog \<Rightarrow> jsval \<Rightarrow>
     (error \<times> 'a adder_dialog) + 'a adder_dialog"
where
  "on_posix_change reset that value =
     (let gid_field = get_field that ''gidnumber'' in
      case get_index value 0 of
        Inl e \<Rightarrow> Inl (e, that)
      | Inr v0 \<Rightarrow>
          (case gid_field of
             None \<Rightarrow> Inl (TypeError, that)
           | Some g \<Rightarrow>
               let g1 = (if to_boolean v0 then reset g else g);
                   that1 = that\<lparr>dialog_fields := (dialog_fields that)(''gidnumber'' \<mapsto> g1)\<rparr>
               in
                 (case get_index (after_index value 0) 0 of
                    Inl e \<Rightarrow> Inl (e, that1)
                  | Inr v1 \<Rightarrow>
                      let g2 = set_enabled (to_boolean (js_not v1)) g1
                      in Inr (that\<lparr>dialog_fields := (dialog_fields that)(''gidnumber'' \<mapsto> g2)\<rparr>))))"

text \<open>
  The notifications of \<^verbatim>\<open>value_changed\<close>, delivered to the handler one after the other.
  An error of the handler ends the delivery.
\<close>

fun deliver ::
  "('a field_scheme \<Rightarrow> 'a field_scheme) \<Rightarrow> 'a adder_dialog \<Rightarrow> jsval list \<Rightarrow>
     (error \<times> 'a adder_dialog) + 'a adder_dialog"
where
  "deliver reset that [] = Inr that"
| "deliver reset that (v # vs) =
     (case on_posix_change reset that v of
        Inl e \<Rightarrow> Inl e
      | Inr that' \<Rightarrow> deliver reset that' vs)"

text \<open>
  Modelled from the spec: the notification of the checkbox, which is in the framework's
  checkbox and not among the sources. \<^verbatim>\<open>init\<close> attaches \<^verbatim>\<open>on_posix_change\<close> to the
  \<^verbatim>\<open>value_changed\<close> of the widget of the field \<^verbatim>\<open>nonposix\<close>; when the box changes, the
  widget notifies \<^verbatim>\<open>value_changed\<close> with what its \<^verbatim>\<open>save()\<close> returns. \<open>w\<close> is the widget
  after the change.
\<close>

definition posix_checkbox_changed ::
  "('a field_scheme \<Rightarrow> 'a field_scheme) \<Rightarrow> 'a adder_dialog \<Rightarrow> checkbox \<Rightarrow>
     (error \<times> 'a adder_dialog) + 'a adder_dialog"
where
  "posix_checkbox_changed reset that w =
     (case save checkbox_save w of
        Inl e \<Rightarrow> Inl (e, that)
      | Inr value \<Rightarrow> on_posix_change reset that value)"

section \<open>The access control instructions of the update files\<close>

subsection \<open>The entries\<close>

text \<open>
  An entry of an update file: whether the value is added to or removed from the \<^verbatim>\<open>aci\<close>
  attribute, the entry it applies to, and the value, which is the text after the
  attribute's colon without the blanks around it.
\<close>

datatype action = Add | Remove

type_synonym aci_entry = "action \<times> string \<times> string"

definition aci_value :: "aci_entry \<Rightarrow> string" where
  "aci_value e = snd (snd e)"

definition aci_action :: "aci_entry \<Rightarrow> action" where
  "aci_action e = fst e"

text \<open>
  \<^verbatim>\<open>install/updates/20-aci.update\<close>: the values of its \<^verbatim>\<open>add:aci:\<close> and \<^verbatim>\<open>remove:aci:\<close>
  lines, in order, each with the \<^verbatim>\<open>dn:\<close> it stands under.
\<close>

definition aci_update :: "aci_entry list" where
  \<open>aci_update =
    [(Add, ''cn=ng,cn=alt,$SUFFIX'',
      ''(targetfilter = "(objectClass=mepManagedEntry)")(targetattr = "*")(version 3.0; acl "Managed netgroups cannot be modified"; deny (write) userdn = "ldap:///all";)''),
     (Add, ''cn=accounts,$SUFFIX'',
      ''(targetattr="userPassword || krbPrincipalKey")(version 3.0; acl "Search existence of password and kerberos keys"; allow(search) userdn = "ldap:///all";)''),
     (Add, ''$SUFFIX'',
      ''(targetattr = "ipasshpubkey")(version 3.0;acl "selfservice:Users can manage their own SSH public keys";allow (write) userdn = "ldap:///self";)''),
     (Add, ''cn=computers,cn=accounts,$SUFFIX'',
      ''(targetattr="ipasshpubkey")(version 3.0; acl "Hosts can modify their own SSH public keys"; allow(write) userdn = "ldap:///self";)''),
     (Add, ''cn=computers,cn=accounts,$SUFFIX'',
      ''(targetattr="ipasshpubkey")(version 3.0; acl "Hosts can manage other host SSH public keys"; allow(write) userattr = "parent[0,1].managedby#USERDN";)''),
     (Add, ''$SUFFIX'',
      ''(targetfilter="(objectclass=domain)")(targetattr="objectclass || dc || info || nisDomain || associatedDomain")(version 3.0; acl "Anonymous read access to DIT root"; allow(read, search, compare) userdn = "ldap:///anyone";)''),
     (Add, ''$SUFFIX'',
      ''(targetfilter="(&(objectclass=nsContainer)(!(objectclass=krbPwdPolicy)))")(target!="ldap:///cn=masters,cn=ipa,cn=etc,$SUFFIX")(targetattr="objectclass || cn")(version 3.0; acl "Anonymous read access to containers"; allow(read, search, compare) userdn = "ldap:///anyone";)''),
     (Remove, ''cn=replicas,cn=ipa,cn=etc,$SUFFIX'',
      ''(targetfilter="(objectclass=nsContainer)")(version 3.0; acl "Deny read access to replica configuration"; deny(read, search, compare) userdn = "ldap:///anyone";)''),
     (Add, ''cn=masters,cn=ipa,cn=etc,$SUFFIX'',
      ''(targetfilter="(objectclass=nsContainer)")(targetattr="objectclass || cn")(version 3.0; acl "Read access to masters"; allow(read, search, compare) userdn = "ldap:///all";)''),
     (Add, ''cn=kerberos,$SUFFIX'',
      ''(targetattr = "cn || objectclass")(targetfilter = "(|(objectclass=krbrealmcontainer)(objectclass=krbcontainer))")(version 3.0;acl "Anonymous read access to Kerberos containers";allow (read,compare,search) userdn = "ldap:///anyone";)''),
     (Remove, ''$SUFFIX'',
      ''(targetattr != "userPassword || krbPrincipalKey || sambaLMPassword || sambaNTPassword || passwordHistory || krbMKey || krbPrincipalName || krbCanonicalName || krbUPEnabled || krbTicketPolicyReference || krbPrincipalExpiration || krbPasswordExpiration || krbPwdPolicyReference || krbPrincipalType || krbPwdHistory || krbLastPwdChange || krbPrincipalAliases || krbExtraData || krbLastSuccessfulAuth || krbLastFailedAuth || krbLoginFailedCount || krbTicketFlags || ipaUniqueId || memberOf || serverHostName || enrolledBy")(version 3.0; acl "Admin can manage any entry"; allow (all) groupdn = "ldap:///cn=admins,cn=groups,cn=accounts,$SUFFIX";)''),
     (Remove, ''$SUFFIX'',
      ''(targetattr != "userPassword || krbPrincipalKey || sambaLMPassword || sambaNTPassword || passwordHistory || krbMKey || krbPrincipalName || krbCanonicalName || krbUPEnabled || krbTicketPolicyReference || krbPrincipalExpiration || krbPasswordExpiration || krbPwdPolicyReference || krbPrincipalType || krbPwdHistory || krbLastPwdChange || krbPrincipalAliases || krbExtraData || krbLastSuccessfulAuth || krbLastFailedAuth || krbLoginFailedCount || krbTicketFlags || ipaUniqueId || memberOf || serverHostName || enrolledBy || ipaNTHash")(version 3.0; acl "Admin can manage any entry"; allow (all) groupdn = "ldap:///cn=admins,cn=groups,cn=accounts,$SUFFIX";)''),
     (Remove, ''$SUFFIX'',
      ''(targetattr != "userPassword || krbPrincipalKey || sambaLMPassword || sambaNTPassword || passwordHistory || krbMKey || krbPrincipalName || krbCanonicalName || krbUPEnabled || krbTicketPolicyReference || krbPrincipalExpiration || krbPasswordExpiration || krbPwdPolicyReference || krbPrincipalType || krbPwdHistory || krbLastPwdChange || krbPrincipalAliases || krbExtraData || krbLastSuccessfulAuth || krbLastFailedAuth || krbLoginFailedCount || ipaUniqueId || memberOf || serverHostName || enrolledBy || ipaNTHash")(version 3.0; acl "Admin can manage any entry"; allow (all) groupdn = "ldap:///cn=admins,cn=groups,cn=accounts,$SUFFIX";)''),
     (Remove, ''$SUFFIX'',
      ''(targetattr != "userPassword || krbPrincipalKey || sambaLMPassword || sambaNTPassword || passwordHistory || krbMKey || krbPrincipalName || krbCanonicalName || krbUPEnabled || krbTicketPolicyReference || krbPasswordExpiration || krbPwdPolicyReference || krbPrincipalType || krbPwdHistory || krbLastPwdChange || krbPrincipalAliases || krbExtraData || krbLastSuccessfulAuth || krbLastFailedAuth || krbLoginFailedCount || ipaUniqueId || memberOf || serverHostName || enrolledBy || ipaNTHash")(version 3.0; acl "Admin can manage any entry"; allow (all) groupdn = "ldap:///cn=admins,cn=groups,cn=accounts,$SUFFIX";)''),
     (Add, ''$SUFFIX'',
      ''(targetattr != "userPassword || krbPrincipalKey || sambaLMPassword || sambaNTPassword || passwordHistory || krbMKey || krbPrincipalName || krbCanonicalName || krbPasswordExpiration || krbPwdHistory || krbLastPwdChange || krbExtraData || krbLastSuccessfulAuth || krbLastFailedAuth || ipaUniqueId || memberOf || enrolledBy || ipaNTHash || ipaProtectedOperation")(version 3.0; acl "Admin can manage any entry"; allow (all) groupdn = "ldap:///cn=admins,cn=groups,cn=accounts,$SUFFIX";)''),
     (Remove, ''$SUFFIX'',
      ''(targetattr = "userPassword || krbPrincipalKey || sambaLMPassword || sambaNTPassword || passwordHistory")(version 3.0; acl "Admins can write passwords"; allow (add,delete,write) groupdn="ldap:///cn=admins,cn=groups,cn=accounts,$SUFFIX";)''),
     (Add, ''$SUFFIX'',
      ''(targetattr = "userPassword || krbPrincipalKey || sambaLMPassword || sambaNTPassword || passwordHistory || ipaNTHash")(version 3.0; acl "Admins can write passwords"; allow (add,delete,write) groupdn="ldap:///cn=admins,cn=groups,cn=accounts,$SUFFIX";)''),
     (Add, ''$SUFFIX'',
      ''(targetfilter = "(objectClass=krbPwdPolicy)")(targetattr = "krbMaxPwdLife || krbMinPwdLife || krbPwdMinDiffChars || krbPwdMinLength || krbPwdHistoryLength")(version 3.0;acl "Admins can write password policies"; allow (read, search, compare, write) groupdn = "ldap:///cn=admins,cn=groups,cn=accounts,$SUFFIX";)''),
     (Add, ''$SUFFIX'',
      ''(targetattr="ipaUniqueId || memberOf || enrolledBy || krbExtraData || krbPrincipalName || krbCanonicalName || krbPasswordExpiration || krbLastPwdChange || krbLastSuccessfulAuth || krbLastFailedAuth")(version 3.0; acl "Admin read-only attributes"; allow (read, search, compare) groupdn = "ldap:///cn=admins,cn=groups,cn=accounts,$SUFFIX";)''),
     (Add, ''cn=tasks,cn=config'',
      ''(targetattr="*")(version 3.0; acl "Admin can read all tasks"; allow (read, compare, search) groupdn = "ldap:///cn=admins,cn=groups,cn=accounts,$SUFFIX";)''),
     (Remove, ''cn=config'',
      ''(targetattr != aci)(version 3.0; aci "replica admins read access"; allow (read, search, compare) groupdn = "ldap:///cn=Modify Replication Agreements,cn=permissions,cn=pbac,$SUFFIX";)''),
     (Remove, ''$SUFFIX'',
      ''(targetattr = "*")(target = "ldap:///cn=*,cn=roles,cn=accounts,$SUFFIX")(version 3.0; acl "No anonymous access to roles"; deny (read,search,compare) userdn != "ldap:///all";)''),
     (Remove, ''$SUFFIX'',
      ''(targetattr = "memberOf || memberHost || memberUser")(version 3.0; acl "No anonymous access to member information"; deny (read,search,compare) userdn != "ldap:///all";)''),
     (Remove, ''$SUFFIX'',
      ''(targetattr = "*")(target = "ldap:///cn=*,ou=SUDOers,$SUFFIX")(version 3.0; acl "No anonymous access to sudo"; deny (read,search,compare) userdn != "ldap:///all";)''),
     (Remove, ''cn=hbac,$SUFFIX'',
      ''(targetattr = "*")(version 3.0; acl "No anonymous access to hbac"; deny (read,search,compare) userdn != "ldap:///all";)''),
     (Remove, ''cn=sudo,$SUFFIX'',
      ''(targetattr = "*")(version 3.0; acl "No anonymous access to sudo"; deny (read,search,compare) userdn != "ldap:///all";)''),
     (Add, ''cn=accounts,$SUFFIX'',
      ''(targetattr="ipaProtectedOperation;read_keys")(version 3.0; acl "Users allowed to retrieve keytab keys"; allow(read) userattr="ipaAllowedToPerform;read_keys#USERDN";)''),
     (Add, ''cn=accounts,$SUFFIX'',
      ''(targetattr="ipaProtectedOperation;read_keys")(version 3.0; acl "Groups allowed to retrieve keytab keys"; allow(read) userattr="ipaAllowedToPerform;read_keys#GROUPDN";)''),
     (Add, ''cn=accounts,$SUFFIX'',
      ''(targetattr="ipaProtectedOperation;write_keys")(version 3.0; acl "Users allowed to create keytab keys"; allow(write) userattr="ipaAllowedToPerform;write_keys#USERDN";)''),
     (Add, ''cn=accounts,$SUFFIX'',
      ''(targetattr="ipaProtectedOperation;write_keys")(version 3.0; acl "Groups allowed to create keytab keys"; allow(write) userattr="ipaAllowedToPerform;write_keys#GROUPDN";)''),
     (Add, ''cn=accounts,$SUFFIX'',
      ''(targetattr="ipaProtectedOperation;write_keys")(version 3.0; acl "Entities are allowed to rekey themselves"; allow(write) userdn="ldap:///self";)''),
     (Add, ''cn=accounts,$SUFFIX'',
      ''(targetattr="ipaProtectedOperation;write_keys")(version 3.0; acl "Admins are allowed to rekey any entity"; allow(write) groupdn = "ldap:///cn=admins,cn=groups,cn=accounts,$SUFFIX";)''),
     (Add, ''cn=accounts,$SUFFIX'',
      ''(targetfilter="(|(objectclass=ipaHost)(objectclass=ipaService))")(targetattr="ipaProtectedOperation;write_keys")(version 3.0; acl "Entities are allowed to rekey managed entries"; allow(write) userattr="managedby#USERDN";)'')]\<close>

text \<open>
  The LDIF file of the replica administration: every change adds one value to \<^verbatim>\<open>aci\<close>.
\<close>

definition replica_acis :: "aci_entry list" where
  \<open>replica_acis =
    [(Add, ''cn="$SUFFIX",cn=mapping tree,cn=config'',
      ''(targetattr=*)(version 3.0;acl "permission:Add Replication Agreements";allow (add) groupdn = "ldap:///cn=Add Replication Agreements,cn=permissions,cn=pbac,$SUFFIX";)''),
     (Add, ''cn="$SUFFIX",cn=mapping tree,cn=config'',
      ''(targetattr=*)(targetfilter="(|(objectclass=nsds5Replica)(objectclass=nsds5replicationagreement)(objectclass=nsDSWindowsReplicationAgreement)(objectClass=nsMappingTree))")(version 3.0; acl "permission:Modify Replication Agreements"; allow (read, write, search) groupdn = "ldap:///cn=Modify Replication Agreements,cn=permissions,cn=pbac,$SUFFIX";)''),
     (Add, ''cn="$SUFFIX",cn=mapping tree,cn=config'',
      ''(targetattr=*)(targetfilter="(|(objectclass=nsds5replicationagreement)(objectclass=nsDSWindowsReplicationAgreement))")(version 3.0;acl "permission:Remove Replication Agreements";allow (delete) groupdn = "ldap:///cn=Remove Replication Agreements,cn=permissions,cn=pbac,$SUFFIX";)''),
     (Add, ''cn=Posix IDs,cn=Distributed Numeric Assignment Plugin,cn=plugins,cn=config'',
      ''(targetattr=dnaNextRange || dnaNextValue || dnaMaxValue)(version 3.0;acl "permission:Modify DNA Range";allow (write) groupdn = "ldap:///cn=Modify DNA Range,cn=permissions,cn=pbac,$SUFFIX";)''),
     (Add, ''cn=userRoot,cn=ldbm database,cn=plugins,cn=config'',
      ''(targetattr=nsslapd-readonly)(version 3.0; acl "Allow marking the database readonly"; allow (write) groupdn = "ldap:///cn=Remove Replication Agreements,cn=permissions,cn=pbac,$SUFFIX";)''),
     (Add, ''cn=tasks,cn=config'',
      ''(targetattr=*)(version 3.0; acl "Run tasks after replica re-initialization"; allow (add) groupdn = "ldap:///cn=Modify Replication Agreements,cn=permissions,cn=pbac,$SUFFIX";)'')]\<close>

subsection \<open>The grammar of an instruction\<close>

text \<open>
  The grammar follows the specification's words: target clauses, then a parenthesized
  body with the version, the name, one permission and its bind rule.
\<close>

definition is_space :: "char \<Rightarrow> bool" where
  "is_space c = (c = CHR '' '' \<or> c = CHR 0x09)"

definition dquote :: char where
  "dquote = CHR 0x22"

fun skip_ws :: "string \<Rightarrow> string" where
  "skip_ws [] = []"
| "skip_ws (c # cs) = (if is_space c then skip_ws cs else c # cs)"

definition blank :: "string \<Rightarrow> bool" where
  "blank s = (skip_ws s = [])"

fun strip_prefix :: "string \<Rightarrow> string \<Rightarrow> string option" where
  "strip_prefix [] s = Some s"
| "strip_prefix (p # ps) [] = None"
| "strip_prefix (p # ps) (c # cs) = (if p = c then strip_prefix ps cs else None)"

text \<open>The first of the keywords that the text starts with, and the text after it.\<close>

fun keyword :: "string list \<Rightarrow> string \<Rightarrow> string option" where
  "keyword [] s = None"
| "keyword (k # ks) s = (case strip_prefix k s of Some r \<Rightarrow> Some r | None \<Rightarrow> keyword ks s)"

text \<open>The text before the first occurrence of a character, and the text after it.\<close>

fun until_char :: "char \<Rightarrow> string \<Rightarrow> (string \<times> string) option" where
  "until_char c [] = None"
| "until_char c (x # xs) =
     (if x = c then Some ([], xs)
      else (case until_char c xs of None \<Rightarrow> None | Some (a, b) \<Rightarrow> Some (x # a, b)))"

text \<open>A quoted string, and the text after its closing quote.\<close>

definition quoted :: "string \<Rightarrow> string option" where
  "quoted s =
     (case s of
        [] \<Rightarrow> None
      | c # cs \<Rightarrow>
          if c = dquote then (case until_char dquote cs of None \<Rightarrow> None | Some (q, r) \<Rightarrow> Some r)
          else None)"

text \<open>The comparison of a target clause or of a bind rule: \<^verbatim>\<open>=\<close> or \<^verbatim>\<open>!=\<close>.\<close>

definition operator :: "string \<Rightarrow> string option" where
  "operator s = keyword [''!='', ''=''] s"

text \<open>
  The parenthesized groups of an instruction, in order, each without its outer
  parentheses. A parenthesis inside a quoted string does not count; between the groups
  there are only blanks. Inside a group (\<open>d\<close> parentheses deep, \<open>q\<close> inside a quoted
  string) the first of the groups returned is the rest of the open one.
\<close>

fun cons_head :: "char \<Rightarrow> string list \<Rightarrow> string list" where
  "cons_head c [] = [[c]]"
| "cons_head c (g # gs) = (c # g) # gs"

fun paren_groups :: "nat \<Rightarrow> bool \<Rightarrow> string \<Rightarrow> string list option" where
  "paren_groups d q [] = (if d = 0 \<and> \<not> q then Some [] else None)"
| "paren_groups d q (c # cs) =
     (if q then map_option (cons_head c) (paren_groups d (c \<noteq> dquote) cs)
      else
        (case d of
           0 \<Rightarrow>
             if c = CHR ''('' then paren_groups (Suc 0) False cs
             else if is_space c then paren_groups 0 False cs
             else None
         | Suc d' \<Rightarrow>
             if c = dquote then map_option (cons_head c) (paren_groups d True cs)
             else if c = CHR ''('' then map_option (cons_head c) (paren_groups (Suc d) False cs)
             else if c = CHR '')'' then
               (case d' of
                  0 \<Rightarrow> map_option (Cons []) (paren_groups 0 False cs)
                | Suc d'' \<Rightarrow> map_option (cons_head c) (paren_groups d' False cs))
             else map_option (cons_head c) (paren_groups d False cs)))"

text \<open>The parts of a body between its semicolons; a semicolon inside a quoted string does not count.\<close>

fun split_semis :: "bool \<Rightarrow> string \<Rightarrow> string list" where
  "split_semis q [] = [[]]"
| "split_semis q (c # cs) =
     (if q then cons_head c (split_semis (c \<noteq> dquote) cs)
      else if c = dquote then cons_head c (split_semis True cs)
      else if c = CHR '';'' then [] # split_semis False cs
      else cons_head c (split_semis False cs))"

fun split_commas :: "string \<Rightarrow> string list" where
  "split_commas [] = [[]]"
| "split_commas (c # cs) =
     (if c = CHR '','' then [] # split_commas cs else cons_head c (split_commas cs))"

text \<open>
  A target clause: \<^verbatim>\<open>targetfilter\<close>, \<^verbatim>\<open>targetattr\<close> or \<^verbatim>\<open>target\<close>, a comparison, and a
  value, which is a quoted string or a text without quotes.
\<close>

definition target_value :: "string \<Rightarrow> bool" where
  "target_value s =
     (case s of
        [] \<Rightarrow> False
      | c # cs \<Rightarrow>
          if c = dquote then (case quoted s of None \<Rightarrow> False | Some r \<Rightarrow> blank r)
          else dquote \<notin> set s)"

definition target_clause :: "string \<Rightarrow> bool" where
  "target_clause g =
     (case keyword [''targetfilter'', ''targetattr'', ''target''] (skip_ws g) of
        None \<Rightarrow> False
      | Some r \<Rightarrow>
          (case operator (skip_ws r) of
             None \<Rightarrow> False
           | Some v \<Rightarrow> target_value (skip_ws v)))"

text \<open>The version declaration: \<^verbatim>\<open>version 3.0\<close>.\<close>

definition version_decl :: "string \<Rightarrow> bool" where
  "version_decl p =
     (case strip_prefix ''version'' (skip_ws p) of
        None \<Rightarrow> False
      | Some r \<Rightarrow>
          r \<noteq> skip_ws r \<and>
          (case strip_prefix ''3.0'' (skip_ws r) of None \<Rightarrow> False | Some r' \<Rightarrow> blank r'))"

text \<open>The name: the keyword (\<^verbatim>\<open>acl\<close>) and a quoted string.\<close>

definition acl_name :: "string list \<Rightarrow> string \<Rightarrow> bool" where
  "acl_name kws p =
     (case keyword kws (skip_ws p) of
        None \<Rightarrow> False
      | Some r \<Rightarrow> (case quoted (skip_ws r) of None \<Rightarrow> False | Some r' \<Rightarrow> blank r'))"

text \<open>The permission verbs.\<close>

definition verbs :: "string list" where
  "verbs = [''read'', ''write'', ''search'', ''compare'', ''add'', ''delete'', ''all'']"

definition verb :: "string \<Rightarrow> bool" where
  "verb t =
     list_ex (\<lambda>v. case strip_prefix v (skip_ws t) of None \<Rightarrow> False | Some r \<Rightarrow> blank r) verbs"

text \<open>The bind rule: \<^verbatim>\<open>userdn\<close>, \<^verbatim>\<open>groupdn\<close> or \<^verbatim>\<open>userattr\<close>, a comparison, and a quoted string.\<close>

definition bind_rule :: "string \<Rightarrow> bool" where
  "bind_rule s =
     (case keyword [''userdn'', ''groupdn'', ''userattr''] (skip_ws s) of
        None \<Rightarrow> False
      | Some r \<Rightarrow>
          (case operator (skip_ws r) of
             None \<Rightarrow> False
           | Some v \<Rightarrow> (case quoted (skip_ws v) of None \<Rightarrow> False | Some r' \<Rightarrow> blank r')))"

text \<open>
  The permission: \<^verbatim>\<open>allow\<close> or \<^verbatim>\<open>deny\<close>, the parenthesized list of verbs, separated by
  commas, and the bind rule.
\<close>

definition permission :: "string \<Rightarrow> bool" where
  "permission p =
     (case keyword [''allow'', ''deny''] (skip_ws p) of
        None \<Rightarrow> False
      | Some r \<Rightarrow>
          (case strip_prefix ''('' (skip_ws r) of
             None \<Rightarrow> False
           | Some r' \<Rightarrow>
               (case until_char (CHR '')'') r' of
                  None \<Rightarrow> False
                | Some (vs, b) \<Rightarrow> list_all verb (split_commas vs) \<and> bind_rule b)))"

text \<open>
  The body: the version, the name and one permission with its bind rule, each closed by
  a semicolon.
\<close>

definition aci_body :: "string list \<Rightarrow> string \<Rightarrow> bool" where
  "aci_body kws g =
     (case split_semis False g of
        [v, n, p, e] \<Rightarrow> version_decl v \<and> acl_name kws n \<and> permission p \<and> blank e
      | _ \<Rightarrow> False)"

text \<open>
  An instruction: zero or more target clauses, then the body. The keyword of the name is
  a parameter; the grammar of the specification has \<^verbatim>\<open>acl\<close>.
\<close>

definition aci_syntax :: "string list \<Rightarrow> string \<Rightarrow> bool" where
  "aci_syntax kws s =
     (case paren_groups 0 False s of
        None \<Rightarrow> False
      | Some gs \<Rightarrow> gs \<noteq> [] \<and> list_all target_clause (butlast gs) \<and> aci_body kws (last gs))"

definition conforms :: "string \<Rightarrow> bool" where
  "conforms s = aci_syntax [''acl''] s"

section \<open>Properties of construct.js\<close>

lemma is_constructor_not_function:
  "typeof obj \<noteq> ''function'' \<Longrightarrow> is_constructor obj = Inr (JBool False)"
  by (simp add: is_constructor_def)

lemma is_constructor_function:
  "typeof obj = ''function'' \<Longrightarrow>
   is_constructor obj =
     (case get_prop obj ''extend'' of
        Inl e \<Rightarrow> Inl e
      | Inr ext \<Rightarrow> Inr (JBool (typeof ext = ''function'')))"
  by (simp add: is_constructor_def)

text \<open>
  C3, as the specification states it: \<^verbatim>\<open>is_constructor(obj)\<close> is true exactly when \<^verbatim>\<open>obj\<close> is
  of function type. A function without an \<^verbatim>\<open>extend\<close> property is of function type, and
  the helper answers false on it.
\<close>

theorem is_constructor_plain_function_counterexample:
  "typeof (JFun []) = ''function'' \<and> is_constructor (JFun []) = Inr (JBool False)"
  by (simp add: is_constructor_def)

text \<open>
  C3, amended: \<^verbatim>\<open>is_constructor(obj)\<close> is decided by two type checks. It returns true exactly
  when \<^verbatim>\<open>obj\<close> is of function type and the \<^verbatim>\<open>extend\<close> property of \<^verbatim>\<open>obj\<close> is of function
  type too.
\<close>

theorem is_constructor_two_type_checks:
  "is_constructor obj = Inr (JBool True) \<longleftrightarrow>
     typeof obj = ''function'' \<and>
     (\<exists>ext. get_prop obj ''extend'' = Inr ext \<and> typeof ext = ''function'')"
proof (cases "typeof obj = ''function''")
  case True
  then show ?thesis
    by (cases "get_prop obj ''extend''") (simp_all add: is_constructor_function)
next
  case False
  then show ?thesis
    by (simp add: is_constructor_not_function)
qed

theorem is_constructor_two_type_checks_witness:
  "is_constructor (JFun [(''extend'', JFun [])]) = Inr (JBool True) \<and>
   typeof (JFun [(''extend'', JFun [])]) = ''function'' \<and>
   get_prop (JFun [(''extend'', JFun [])]) ''extend'' = Inr (JFun []) \<and>
   typeof (JFun []) = ''function''"
  using is_constructor_two_type_checks [of "JFun [(''extend'', JFun [])]"]
  by simp

text \<open>
  C8, as the specification states it: \<^verbatim>\<open>is_constructor\<close> is total on every JavaScript
  value and never raises. On a function whose \<^verbatim>\<open>extend\<close> is an accessor with a getter that
  raises (or a revoked proxy of a function), the first conjunct is true, the read of
  \<^verbatim>\<open>obj.extend\<close> raises, and so does \<^verbatim>\<open>is_constructor\<close>.
\<close>

theorem is_constructor_raising_getter_counterexample:
  "typeof (JWithGetters [(''extend'', [Raises Thrown])] (JFun [])) = ''function'' \<and>
   is_constructor (JWithGetters [(''extend'', [Raises Thrown])] (JFun [])) = Inl Thrown"
  by (simp add: is_constructor_def)

text \<open>
  C8, amended: wherever \<^verbatim>\<open>is_constructor\<close> returns, it returns a boolean. On every value
  that is not a function (\<^verbatim>\<open>null\<close>, \<^verbatim>\<open>undefined\<close>, the primitives, objects that are not
  functions) it returns false without raising: the first conjunct short-circuits, and no
  property of such a value is read, whatever accessors it has. On a function it reads
  \<^verbatim>\<open>extend\<close> once: when the read returns, which it does on every function with data
  properties only, the result is whether \<^verbatim>\<open>extend\<close> is a function, so false on a function
  lacking a function-typed \<^verbatim>\<open>extend\<close> and true only on a function whose \<^verbatim>\<open>extend\<close> is a
  function. It raises exactly when \<^verbatim>\<open>obj\<close> is a function and the read of \<^verbatim>\<open>obj.extend\<close>
  raises, and then with the error of the read.
\<close>

theorem is_constructor_total_unless_getter_raises:
  "(is_constructor obj = Inr r \<longrightarrow> (\<exists>b. r = JBool b)) \<and>
   (typeof obj \<noteq> ''function'' \<longrightarrow> is_constructor obj = Inr (JBool False)) \<and>
   is_constructor JNull = Inr (JBool False) \<and>
   is_constructor JUndefined = Inr (JBool False) \<and>
   is_constructor (JBool b0) = Inr (JBool False) \<and>
   is_constructor (JNum n) = Inr (JBool False) \<and>
   is_constructor JNaN = Inr (JBool False) \<and>
   is_constructor (JStr s) = Inr (JBool False) \<and>
   is_constructor (JArr xs) = Inr (JBool False) \<and>
   is_constructor (JObj ps) = Inr (JBool False) \<and>
   is_constructor (JWithGetters gs (JObj ps)) = Inr (JBool False) \<and>
   (typeof obj = ''function'' \<and> get_prop obj ''extend'' = Inr ext \<longrightarrow>
      is_constructor obj = Inr (JBool (typeof ext = ''function''))) \<and>
   (\<exists>b. is_constructor (JFun fs) = Inr (JBool b)) \<and>
   (is_constructor obj = Inl e \<longleftrightarrow>
      typeof obj = ''function'' \<and> get_prop obj ''extend'' = Inl e) \<and>
   (is_constructor obj = Inr (JBool True) \<longrightarrow>
      typeof obj = ''function'' \<and>
      (\<exists>ext. get_prop obj ''extend'' = Inr ext \<and> typeof ext = ''function''))"
proof -
  have boolean: "\<exists>b. r = JBool b" if "is_constructor obj = Inr r"
  proof (cases "typeof obj = ''function''")
    case True
    with that show ?thesis
      by (cases "get_prop obj ''extend''") (auto simp add: is_constructor_function)
  next
    case False
    with that show ?thesis
      by (auto simp add: is_constructor_not_function)
  qed
  have prims: "is_constructor JNull = Inr (JBool False)"
    "is_constructor JUndefined = Inr (JBool False)"
    "is_constructor (JBool b0) = Inr (JBool False)"
    "is_constructor (JNum n) = Inr (JBool False)"
    "is_constructor JNaN = Inr (JBool False)"
    "is_constructor (JStr s) = Inr (JBool False)"
    "is_constructor (JArr xs) = Inr (JBool False)"
    "is_constructor (JObj ps) = Inr (JBool False)"
    "is_constructor (JWithGetters gs (JObj ps)) = Inr (JBool False)"
    by (simp_all add: is_constructor_def)
  have returns: "is_constructor obj = Inr (JBool (typeof ext = ''function''))"
    if "typeof obj = ''function'' \<and> get_prop obj ''extend'' = Inr ext"
    using that by (simp add: is_constructor_function)
  have plain: "\<exists>b. is_constructor (JFun fs) = Inr (JBool b)"
    by (simp add: is_constructor_def)
  have raises: "is_constructor obj = Inl e \<longleftrightarrow>
      typeof obj = ''function'' \<and> get_prop obj ''extend'' = Inl e"
  proof (cases "typeof obj = ''function''")
    case True
    then show ?thesis
      by (cases "get_prop obj ''extend''") (simp_all add: is_constructor_function)
  next
    case False
    then show ?thesis
      by (simp add: is_constructor_not_function)
  qed
  have only: "typeof obj = ''function'' \<and>
      (\<exists>ext. get_prop obj ''extend'' = Inr ext \<and> typeof ext = ''function'')"
    if t: "is_constructor obj = Inr (JBool True)"
  proof (cases "typeof obj = ''function''")
    case True
    with t show ?thesis
      by (cases "get_prop obj ''extend''") (simp_all add: is_constructor_function)
  next
    case False
    with t show ?thesis
      by (simp add: is_constructor_not_function)
  qed
  show ?thesis
    apply (intro conjI impI)
    apply (erule boolean)
    apply (erule is_constructor_not_function)
    apply (rule prims)+
    apply (erule returns)
    apply (rule plain)
    apply (rule raises)
    apply (erule only [THEN conjunct1])
    apply (erule only [THEN conjunct2])
    done
qed

theorem is_constructor_total_unless_getter_raises_witness:
  "is_constructor (JFun [(''extend'', JFun [])]) = Inr (JBool True) \<and>
   typeof (JFun [(''extend'', JFun [])]) = ''function'' \<and>
   get_prop (JFun [(''extend'', JFun [])]) ''extend'' = Inr (JFun []) \<and>
   is_constructor (JWithGetters [(''extend'', [Returns (JStr ''x'')])] (JFun [])) = Inr (JBool False) \<and>
   typeof (JWithGetters [(''extend'', [Raises TypeError])] (JObj [])) \<noteq> ''function'' \<and>
   is_constructor (JWithGetters [(''extend'', [Raises TypeError])] (JObj [])) = Inr (JBool False) \<and>
   get_prop (JWithGetters [(''extend'', [Raises TypeError])] (JFun [])) ''extend'' = Inl TypeError \<and>
   is_constructor (JWithGetters [(''extend'', [Raises TypeError])] (JFun [])) = Inl TypeError"
  using
    is_constructor_total_unless_getter_raises [of "JFun [(''extend'', JFun [])]" "JBool True"
      True 0 "''''" "[]" "[]" "[]" "JFun []" "[]" TypeError]
    is_constructor_total_unless_getter_raises [of
      "JWithGetters [(''extend'', [Returns (JStr ''x'')])] (JFun [])" "JBool False"
      True 0 "''''" "[]" "[]" "[]" "JStr ''x''" "[]" TypeError]
    is_constructor_total_unless_getter_raises [of
      "JWithGetters [(''extend'', [Raises TypeError])] (JObj [])" "JBool False"
      True 0 "''''" "[]" "[]" "[]" "JUndefined" "[]" TypeError]
    is_constructor_total_unless_getter_raises [of
      "JWithGetters [(''extend'', [Raises TypeError])] (JFun [])" "JBool False"
      True 0 "''''" "[]" "[]" "[]" "JUndefined" "[]" TypeError]
  by simp

section \<open>Properties of group.js\<close>

subsection \<open>Reading the first element\<close>


lemma plain_get_index:
  "is_plain value \<Longrightarrow> value \<noteq> JUndefined \<Longrightarrow> value \<noteq> JNull \<Longrightarrow> \<exists>v. get_index value n = Inr v"
  by (cases "value") simp_all

lemma plain_after_index: "is_plain value \<Longrightarrow> after_index value n = value"
  by (cases "value") simp_all

lemma readable_iff:
  "readable value \<longleftrightarrow>
     (\<exists>x y. get_index value 0 = Inr x \<and> get_index (after_index value 0) 0 = Inr y)"
  by (auto simp add: readable_def split: sum.splits)

lemma plain_readable:
  assumes "is_plain value" and "value \<noteq> JUndefined" and "value \<noteq> JNull"
  shows "readable value"
proof -
  from assms obtain v where "get_index value 0 = Inr v"
    using plain_get_index [of "value" 0] by auto
  with assms(1) show ?thesis
    by (simp add: readable_iff plain_after_index)
qed

subsection \<open>The handler of the posix checkbox\<close>

lemma on_posix_change_step:
  assumes "get_field that ''gidnumber'' = Some g"
    and "get_index value 0 = Inr v0"
    and "get_index (after_index value 0) 0 = Inr v1"
  shows "on_posix_change reset that value =
    Inr (that\<lparr>dialog_fields := (dialog_fields that)(''gidnumber'' \<mapsto>
      set_enabled (\<not> to_boolean v1) (if to_boolean v0 then reset g else g))\<rparr>)"
  using assms by (simp add: on_posix_change_def js_not_def Let_def)

lemma on_posix_change_plain:
  assumes "get_field that ''gidnumber'' = Some g"
    and "is_plain value"
    and "get_index value 0 = Inr v"
  shows "on_posix_change reset that value =
    Inr (that\<lparr>dialog_fields := (dialog_fields that)(''gidnumber'' \<mapsto>
      set_enabled (\<not> to_boolean v) (if to_boolean v then reset g else g))\<rparr>)"
  using assms by (simp add: on_posix_change_step plain_after_index)


lemma get_field_update:
  "get_field (that\<lparr>dialog_fields := (dialog_fields that)(k \<mapsto> f)\<rparr>) k = Some f"
  by (simp add: get_field_def)

lemma enabled_set_enabled: "enabled (set_enabled b f) = b"
  by (simp add: set_enabled_def)

lemma on_posix_change_array:
  assumes "get_field that ''gidnumber'' = Some g"
  shows "on_posix_change reset that (JArr (JBool b # rest)) =
    Inr (that\<lparr>dialog_fields := (dialog_fields that)(''gidnumber'' \<mapsto>
      set_enabled (\<not> b) (if b then reset g else g))\<rparr>)"
  using assms on_posix_change_plain [of that g "JArr (JBool b # rest)" "JBool b" reset]
  by simp

text \<open>
  C1, as the specification states it: when the posix checkbox is checked, the handler
  leaves the \<^verbatim>\<open>gidnumber\<close> field disabled. The checkbox is the non-posix checkbox, whose
  \<^verbatim>\<open>save()\<close> negates the box: with the box checked the handler receives \<^verbatim>\<open>[false]\<close>, and the
  field, disabled before, ends up enabled.
\<close>

theorem posix_checked_enables_counterexample:
  "checked \<lparr>checked = True\<rparr> \<and>
   save checkbox_save \<lparr>checked = True\<rparr> = Inr (JArr [JBool False]) \<and>
   posix_checkbox_changed id
     \<lparr>dialog_fields = [''gidnumber'' \<mapsto> \<lparr>enabled = False, stored_value = JStr ''1000''\<rparr>]\<rparr>
     \<lparr>checked = True\<rparr> =
     Inr \<lparr>dialog_fields = [''gidnumber'' \<mapsto> \<lparr>enabled = True, stored_value = JStr ''1000''\<rparr>]\<rparr>"
  by (simp add: posix_checkbox_changed_def save_def checkbox_save_def js_not_def
      on_posix_change_def get_field_def set_enabled_def)

text \<open>
  C1, amended: when \<^verbatim>\<open>on_posix_change\<close> is invoked with a value whose first element is
  true, the \<^verbatim>\<open>gidnumber\<close> field ends up disabled; when the first element is false, it ends
  up enabled. The value is what the non-posix checkbox saves, the negation of the box:
  when the posix checkbox is checked the field ends up enabled, and when it is unchecked
  the field ends up disabled. The dialog has a \<^verbatim>\<open>gidnumber\<close> field; what \<^verbatim>\<open>reset\<close> does has
  no influence.
\<close>

theorem posix_checkbox_sets_enabled:
  assumes "get_field that ''gidnumber'' = Some g"
  shows "(\<exists>that' g'. on_posix_change reset that (JArr (JBool b # rest)) = Inr that' \<and>
            get_field that' ''gidnumber'' = Some g' \<and> enabled g' = (\<not> b)) \<and>
         (\<exists>that' g'. posix_checkbox_changed reset that w = Inr that' \<and>
            get_field that' ''gidnumber'' = Some g' \<and> enabled g' = checked w)"
proof -
  have "posix_checkbox_changed reset that w =
      on_posix_change reset that (JArr (JBool (\<not> checked w) # []))"
    by (simp add: posix_checkbox_changed_def save_def checkbox_save_def js_not_def)
  then show ?thesis
    using assms
    by (simp add: on_posix_change_array get_field_update enabled_set_enabled)
qed

theorem posix_checkbox_sets_enabled_witness:
  "get_field \<lparr>dialog_fields = [''gidnumber'' \<mapsto> \<lparr>enabled = True, stored_value = JStr ''1000''\<rparr>]\<rparr>
      ''gidnumber'' = Some \<lparr>enabled = True, stored_value = JStr ''1000''\<rparr> \<and>
   (\<exists>that' g'. on_posix_change (stored_value_update (\<lambda>v. JStr ''''))
        \<lparr>dialog_fields = [''gidnumber'' \<mapsto> \<lparr>enabled = True, stored_value = JStr ''1000''\<rparr>]\<rparr>
        (JArr [JBool True]) = Inr that' \<and>
      get_field that' ''gidnumber'' = Some g' \<and> enabled g' = (\<not> True)) \<and>
   (\<exists>that' g'. posix_checkbox_changed (stored_value_update (\<lambda>v. JStr ''''))
        \<lparr>dialog_fields = [''gidnumber'' \<mapsto> \<lparr>enabled = True, stored_value = JStr ''1000''\<rparr>]\<rparr>
        \<lparr>checked = False\<rparr> = Inr that' \<and>
      get_field that' ''gidnumber'' = Some g' \<and> enabled g' = checked \<lparr>checked = False\<rparr>)"
proof -
  have h: "get_field \<lparr>dialog_fields = [''gidnumber'' \<mapsto> \<lparr>enabled = True, stored_value = JStr ''1000''\<rparr>]\<rparr>
      ''gidnumber'' = Some \<lparr>enabled = True, stored_value = JStr ''1000''\<rparr>"
    by (simp add: get_field_def)
  from posix_checkbox_sets_enabled [OF h, of "stored_value_update (\<lambda>v. JStr '''')" True "[]"
      "\<lparr>checked = False\<rparr>"] h
  show ?thesis by blast
qed

text \<open>
  C9: \<^verbatim>\<open>on_posix_change\<close> resets the \<^verbatim>\<open>gidnumber\<close> field only on a true notification. On
  true the field is reset and then disabled. On false the field is enabled and nothing
  else of it changes: its stored value and the rest of its state are as before, and
  \<^verbatim>\<open>reset\<close> does not occur in the result.
\<close>

theorem on_posix_change_resets_only_when_true:
  assumes "get_field that ''gidnumber'' = Some g"
  shows "on_posix_change reset that (JArr (JBool True # rest)) =
           Inr (that\<lparr>dialog_fields := (dialog_fields that)(''gidnumber'' \<mapsto>
                  set_enabled False (reset g))\<rparr>) \<and>
         on_posix_change reset that (JArr (JBool False # rest)) =
           Inr (that\<lparr>dialog_fields := (dialog_fields that)(''gidnumber'' \<mapsto> g\<lparr>enabled := True\<rparr>)\<rparr>) \<and>
         stored_value (g\<lparr>enabled := True\<rparr>) = stored_value g \<and>
         field.more (g\<lparr>enabled := True\<rparr>) = field.more g"
  using assms
  by (simp add: on_posix_change_array set_enabled_def)

theorem on_posix_change_resets_only_when_true_witness:
  "get_field \<lparr>dialog_fields = [''gidnumber'' \<mapsto> \<lparr>enabled = False, stored_value = JStr ''1000''\<rparr>]\<rparr>
      ''gidnumber'' = Some \<lparr>enabled = False, stored_value = JStr ''1000''\<rparr> \<and>
   on_posix_change (stored_value_update (\<lambda>v. JStr ''''))
      \<lparr>dialog_fields = [''gidnumber'' \<mapsto> \<lparr>enabled = False, stored_value = JStr ''1000''\<rparr>]\<rparr>
      (JArr [JBool True]) =
     Inr \<lparr>dialog_fields = [''gidnumber'' \<mapsto> \<lparr>enabled = False, stored_value = JStr ''''\<rparr>]\<rparr> \<and>
   on_posix_change (stored_value_update (\<lambda>v. JStr ''''))
      \<lparr>dialog_fields = [''gidnumber'' \<mapsto> \<lparr>enabled = False, stored_value = JStr ''1000''\<rparr>]\<rparr>
      (JArr [JBool False]) =
     Inr \<lparr>dialog_fields = [''gidnumber'' \<mapsto> \<lparr>enabled = True, stored_value = JStr ''1000''\<rparr>]\<rparr>"
  using on_posix_change_resets_only_when_true [of
      "\<lparr>dialog_fields = [''gidnumber'' \<mapsto> \<lparr>enabled = False, stored_value = JStr ''1000''\<rparr>]\<rparr>"
      "\<lparr>enabled = False, stored_value = JStr ''1000''\<rparr>"
      "stored_value_update (\<lambda>v. JStr '''')" "[]"]
  by (simp add: get_field_def set_enabled_def)

subsection \<open>A sequence of notifications\<close>

lemma deliver_snoc:
  "deliver reset that (vs @ [v]) =
     (case deliver reset that vs of Inl e \<Rightarrow> Inl e | Inr that' \<Rightarrow> on_posix_change reset that' v)"
  by (induction vs arbitrary: that) (simp_all split: sum.splits)

lemma deliver_defined:
  assumes "get_field that ''gidnumber'' = Some g"
    and "\<forall>v \<in> set vs. readable v"
  shows "\<exists>that' g'. deliver reset that vs = Inr that' \<and> get_field that' ''gidnumber'' = Some g'"
  using assms
proof (induction vs arbitrary: that g)
  case Nil
  then show ?case by simp
next
  case (Cons v vs)
  from Cons.prems(2) have "readable v" by simp
  then obtain x y where x: "get_index v 0 = Inr x"
    and y: "get_index (after_index v 0) 0 = Inr y"
    unfolding readable_iff by (elim exE conjE)
  let ?that = "that\<lparr>dialog_fields := (dialog_fields that)(''gidnumber'' \<mapsto>
      set_enabled (\<not> to_boolean y) (if to_boolean x then reset g else g))\<rparr>"
  have step: "on_posix_change reset that v = Inr ?that"
    using Cons.prems(1) x y by (rule on_posix_change_step)
  have "get_field ?that ''gidnumber'' =
      Some (set_enabled (\<not> to_boolean y) (if to_boolean x then reset g else g))"
    by (rule get_field_update)
  moreover have "\<forall>v \<in> set vs. readable v"
    using Cons.prems(2) by simp
  ultimately have "\<exists>that' g'. deliver reset ?that vs = Inr that' \<and>
      get_field that' ''gidnumber'' = Some g'"
    by (rule Cons.IH)
  with step show ?case by simp
qed

lemma deliver_last_read:
  assumes "get_field that ''gidnumber'' = Some g"
    and "\<forall>v \<in> set vs. readable v"
    and "get_index v_last 0 = Inr x"
    and "get_index (after_index v_last 0) 0 = Inr y"
  shows "\<exists>that' g'. deliver reset that (vs @ [v_last]) = Inr that' \<and>
           get_field that' ''gidnumber'' = Some g' \<and> enabled g' = (\<not> to_boolean y)"
proof -
  from deliver_defined [OF assms(1) assms(2), of reset]
  obtain mid gm where mid: "deliver reset that vs = Inr mid"
    and gm: "get_field mid ''gidnumber'' = Some gm"
    by (elim exE conjE)
  let ?g' = "set_enabled (\<not> to_boolean y) (if to_boolean x then reset gm else gm)"
  let ?that' = "mid\<lparr>dialog_fields := (dialog_fields mid)(''gidnumber'' \<mapsto> ?g')\<rparr>"
  have "on_posix_change reset mid v_last = Inr ?that'"
    using gm assms(3) assms(4) by (rule on_posix_change_step)
  with mid have "deliver reset that (vs @ [v_last]) = Inr ?that'"
    by (simp add: deliver_snoc)
  moreover have "get_field ?that' ''gidnumber'' = Some ?g'"
    by (rule get_field_update)
  moreover have "enabled ?g' = (\<not> to_boolean y)"
    by (rule enabled_set_enabled)
  ultimately show ?thesis by blast
qed

text \<open>
  C5: after a non-empty sequence of notifications, delivered one after the other to
  \<^verbatim>\<open>on_posix_change\<close>, whether the \<^verbatim>\<open>gidnumber\<close> field is enabled depends on the last
  notification only. Whatever the dialog's state before, whatever \<^verbatim>\<open>reset\<close> does and
  whatever the earlier notifications \<open>vs\<close> were, the field is enabled exactly when the first
  element of the last notification is falsy. The notifications are values without
  accessors of which \<^verbatim>\<open>value[0]\<close> can be read: none is \<^verbatim>\<open>undefined\<close> or \<^verbatim>\<open>null\<close>. For
  notifications with accessors, each read twice without an error, it is the second read
  of the last notification that decides.
\<close>

theorem deliver_last_value_wins:
  assumes "get_field that ''gidnumber'' = Some g"
  shows "((\<forall>v \<in> set vs. is_plain v \<and> v \<noteq> JUndefined \<and> v \<noteq> JNull) \<and>
          is_plain v_last \<and> get_index v_last 0 = Inr x \<longrightarrow>
            (\<exists>that' g'. deliver reset that (vs @ [v_last]) = Inr that' \<and>
               get_field that' ''gidnumber'' = Some g' \<and> enabled g' = (\<not> to_boolean x))) \<and>
         ((\<forall>v \<in> set vs. readable v) \<and>
          get_index v_last 0 = Inr x \<and> get_index (after_index v_last 0) 0 = Inr y \<longrightarrow>
            (\<exists>that' g'. deliver reset that (vs @ [v_last]) = Inr that' \<and>
               get_field that' ''gidnumber'' = Some g' \<and> enabled g' = (\<not> to_boolean y)))"
proof (intro conjI impI)
  assume a: "(\<forall>v \<in> set vs. is_plain v \<and> v \<noteq> JUndefined \<and> v \<noteq> JNull) \<and>
      is_plain v_last \<and> get_index v_last 0 = Inr x"
  then have "\<forall>v \<in> set vs. readable v"
    by (simp add: plain_readable)
  moreover from a have "get_index v_last 0 = Inr x"
    by simp
  moreover from a have "get_index (after_index v_last 0) 0 = Inr x"
    by (simp add: plain_after_index)
  ultimately show "\<exists>that' g'. deliver reset that (vs @ [v_last]) = Inr that' \<and>
      get_field that' ''gidnumber'' = Some g' \<and> enabled g' = (\<not> to_boolean x)"
    by (rule deliver_last_read [OF assms])
next
  assume a: "(\<forall>v \<in> set vs. readable v) \<and>
      get_index v_last 0 = Inr x \<and> get_index (after_index v_last 0) 0 = Inr y"
  then have "\<forall>v \<in> set vs. readable v" and "get_index v_last 0 = Inr x"
    and "get_index (after_index v_last 0) 0 = Inr y"
    by simp_all
  then show "\<exists>that' g'. deliver reset that (vs @ [v_last]) = Inr that' \<and>
      get_field that' ''gidnumber'' = Some g' \<and> enabled g' = (\<not> to_boolean y)"
    by (rule deliver_last_read [OF assms])
qed

theorem deliver_last_value_wins_witness:
  "get_field \<lparr>dialog_fields = [''gidnumber'' \<mapsto> \<lparr>enabled = False, stored_value = JStr ''1000''\<rparr>]\<rparr>
      ''gidnumber'' = Some \<lparr>enabled = False, stored_value = JStr ''1000''\<rparr> \<and>
   is_plain (JArr [JBool True]) \<and> is_plain (JArr [JBool False]) \<and>
   JArr [JBool True] \<noteq> JUndefined \<and> JArr [JBool True] \<noteq> JNull \<and>
   JArr [JBool False] \<noteq> JUndefined \<and> JArr [JBool False] \<noteq> JNull \<and>
   get_index (JArr [JBool True]) 0 = Inr (JBool True) \<and>
   (\<exists>that' g'. deliver id
        \<lparr>dialog_fields = [''gidnumber'' \<mapsto> \<lparr>enabled = False, stored_value = JStr ''1000''\<rparr>]\<rparr>
        ([JArr [JBool True], JArr [JBool False]] @ [JArr [JBool True]]) = Inr that' \<and>
      get_field that' ''gidnumber'' = Some g' \<and> enabled g' = (\<not> to_boolean (JBool True)))"
proof -
  have h1: "get_field \<lparr>dialog_fields = [''gidnumber'' \<mapsto> \<lparr>enabled = False, stored_value = JStr ''1000''\<rparr>]\<rparr>
      ''gidnumber'' = Some \<lparr>enabled = False, stored_value = JStr ''1000''\<rparr>"
    by (simp add: get_field_def)
  have h2: "(\<forall>v \<in> set [JArr [JBool True], JArr [JBool False]].
        is_plain v \<and> v \<noteq> JUndefined \<and> v \<noteq> JNull) \<and>
      is_plain (JArr [JBool True]) \<and> get_index (JArr [JBool True]) 0 = Inr (JBool True)"
    by simp
  from deliver_last_value_wins [OF h1, of "[JArr [JBool True], JArr [JBool False]]"
      "JArr [JBool True]" "JBool True" id "JBool True", THEN conjunct1, rule_format, OF h2] h1
  show ?thesis by simp
qed

subsection \<open>The non-posix checkbox\<close>

text \<open>
  C2: \<^verbatim>\<open>save()\<close> returns a one-element array whose element is the boolean negation of the
  first element of what \<^verbatim>\<open>checkbox_save()\<close> returns, and nothing more: for every function
  \<^verbatim>\<open>checkbox_save\<close> and every state of the widget on which it returns an array with a first
  element, and so for every state of the framework's checkbox.
\<close>

theorem save_negates_first:
  "(cb_save that = JArr (x # rest) \<longrightarrow>
      save cb_save that = Inr (JArr [JBool (\<not> to_boolean x)])) \<and>
   save checkbox_save w = Inr (JArr [JBool (\<not> checked w)])"
  by (simp add: save_def js_not_def checkbox_save_def)

theorem save_negates_first_witness:
  "checkbox_save \<lparr>checked = False\<rparr> = JArr (JBool False # []) \<and>
   save checkbox_save \<lparr>checked = False\<rparr> = Inr (JArr [JBool (\<not> to_boolean (JBool False))])"
  using save_negates_first [of checkbox_save "\<lparr>checked = False\<rparr>" "JBool False" "[]"]
  by (simp add: checkbox_save_def)




subsection \<open>The entity's declarations\<close>

text \<open>
  C6: \<^verbatim>\<open>init\<close> gives the builder exactly the declared tables. Its one search facet has
  the columns \<^verbatim>\<open>cn\<close>, \<^verbatim>\<open>gidnumber\<close>, \<^verbatim>\<open>description\<close>, in this order; its one details facet has
  a single section, named \<^verbatim>\<open>details\<close>, with the fields \<^verbatim>\<open>cn\<close>, a textarea \<^verbatim>\<open>description\<close> and
  \<^verbatim>\<open>gidnumber\<close>, in this order. The two are the first calls, and their specifications are
  literals: nothing of the environment enters them.
\<close>

theorem init_facet_table:
  "filter is_search_facet (init I) =
     [Search_facet (JObj
        [(''columns'', JArr [JStr ''cn'', JStr ''gidnumber'', JStr ''description''])])] \<and>
   filter is_details_facet (init I) =
     [Details_facet (JObj
        [(''sections'', JArr
           [JObj
              [(''name'', JStr ''details''),
               (''fields'', JArr
                  [JStr ''cn'',
                   JObj [(''type'', JStr ''textarea''), (''name'', JStr ''description'')],
                   JStr ''gidnumber''])]])])] \<and>
   take 2 (init I) = filter is_search_facet (init I) @ filter is_details_facet (init I)"
  by (simp add: init_def)

text \<open>
  C10: the adder dialog declares its \<^verbatim>\<open>nonposix\<close> checkbox checked, with the posix message
  as its label. The widget that the factory of its type builds from that declaration is
  checked, and \<^verbatim>\<open>save()\<close> on the untouched widget returns \<^verbatim>\<open>[false]\<close>: by default the
  dialog asks for a POSIX group.
\<close>

theorem default_is_posix:
  "adder_dialog_fields (init I) ! 2 =
     JObj [(''type'', JStr ''nonposix_checkbox''), (''name'', JStr ''nonposix''),
           (''label'', messages_objects_group_posix I), (''checked'', JBool True)] \<and>
   widget_factories ''nonposix_checkbox'' = Some group_nonposix_checkbox_widget \<and>
   group_nonposix_checkbox_widget (adder_dialog_fields (init I) ! 2) = Inr \<lparr>checked = True\<rparr> \<and>
   save checkbox_save \<lparr>checked = True\<rparr> = Inr (JArr [JBool False])"
  by (simp add: init_def widget_factories_def group_nonposix_checkbox_widget_def
      checkbox_widget_def save_def checkbox_save_def js_not_def)

section \<open>Properties of the access control instructions\<close>

text \<open>The values of the two files, checked against the grammar by evaluation.\<close>

lemma replica_acis_conform: "list_all (\<lambda>e. conforms (aci_value e)) replica_acis"
  by code_simp

lemma aci_update_conform_0_9: "list_all (\<lambda>e. conforms (aci_value e)) (take 10 aci_update)"
  by code_simp

lemma aci_update_conform_10: "list_all (\<lambda>e. conforms (aci_value e)) (take 1 (drop 10 aci_update))"
  by code_simp

lemma aci_update_conform_11: "list_all (\<lambda>e. conforms (aci_value e)) (take 1 (drop 11 aci_update))"
  by code_simp

lemma aci_update_conform_12: "list_all (\<lambda>e. conforms (aci_value e)) (take 1 (drop 12 aci_update))"
  by code_simp

lemma aci_update_conform_13: "list_all (\<lambda>e. conforms (aci_value e)) (take 1 (drop 13 aci_update))"
  by code_simp

lemma aci_update_conform_14_19: "list_all (\<lambda>e. conforms (aci_value e)) (take 6 (drop 14 aci_update))"
  by code_simp

lemma aci_update_conform_21_32: "list_all (\<lambda>e. conforms (aci_value e)) (drop 21 aci_update)"
  by code_simp

text \<open>
  What the grammar refuses: a body without the version, a verb that is not in the list, a
  second permission, a target that is none of the three, a body without a bind rule, and
  a text after the body.
\<close>

lemma conforms_rejects:
  \<open>\<not> conforms ''(targetattr = "*")(acl "x"; allow (read) userdn = "ldap:///all";)''\<close>
  \<open>\<not> conforms ''(targetattr = "*")(version 3.0; acl "x"; allow (proxy) userdn = "ldap:///all";)''\<close>
  \<open>\<not> conforms ''(version 3.0; acl "x"; allow (read) userdn = "ldap:///all"; deny (write) userdn = "ldap:///all";)''\<close>
  \<open>\<not> conforms ''(targetscope = "base")(version 3.0; acl "x"; allow (read) userdn = "ldap:///all";)''\<close>
  \<open>\<not> conforms ''(targetattr = "*")(version 3.0; acl "x"; allow (read);)''\<close>
  \<open>\<not> conforms ''(version 3.0; acl "x"; allow (read) userdn = "ldap:///all";) and more''\<close>
  \<open>conforms ''(version 3.0; acl "x"; allow (read) userdn = "ldap:///all";)''\<close>
  by code_simp+

lemma length_aci_update: "length aci_update = 33"
  by (simp add: aci_update_def)

lemma aci_update_20:
  \<open>aci_update ! 20 =
    (Remove, ''cn=config'',
     ''(targetattr != aci)(version 3.0; aci "replica admins read access"; allow (read, search, compare) groupdn = "ldap:///cn=Modify Replication Agreements,cn=permissions,cn=pbac,$SUFFIX";)'')\<close>
  by (simp add: aci_update_def)

lemma aci_update_20_acl: "\<not> conforms (aci_value (aci_update ! 20))"
  by code_simp

lemma aci_update_20_aci: "aci_syntax [''aci''] (aci_value (aci_update ! 20))"
  by code_simp

lemma aci_update_split:
  "aci_update =
     take 10 aci_update @ take 1 (drop 10 aci_update) @ take 1 (drop 11 aci_update) @
     take 1 (drop 12 aci_update) @ take 1 (drop 13 aci_update) @ take 6 (drop 14 aci_update) @
     [aci_update ! 20] @ drop 21 aci_update"
  by (simp add: aci_update_def)

lemma aci_update_others:
  assumes "e \<in> set aci_update" and "e \<noteq> aci_update ! 20"
  shows "conforms (aci_value e)"
proof -
  let ?ok = "list_all (\<lambda>e. conforms (aci_value e))"
  have "?ok (take 10 aci_update @ take 1 (drop 10 aci_update) @ take 1 (drop 11 aci_update) @
     take 1 (drop 12 aci_update) @ take 1 (drop 13 aci_update) @ take 6 (drop 14 aci_update) @
     drop 21 aci_update)"
    using aci_update_conform_0_9 aci_update_conform_10 aci_update_conform_11
      aci_update_conform_12 aci_update_conform_13 aci_update_conform_14_19
      aci_update_conform_21_32
    by (simp only: list_all_append simp_thms)
  moreover have "e \<in> set (take 10 aci_update @ take 1 (drop 10 aci_update) @
     take 1 (drop 11 aci_update) @ take 1 (drop 12 aci_update) @ take 1 (drop 13 aci_update) @
     take 6 (drop 14 aci_update) @ drop 21 aci_update)"
  proof -
    have "e \<in> set (take 10 aci_update @ take 1 (drop 10 aci_update) @
       take 1 (drop 11 aci_update) @ take 1 (drop 12 aci_update) @ take 1 (drop 13 aci_update) @
       take 6 (drop 14 aci_update) @ [aci_update ! 20] @ drop 21 aci_update)"
      using assms(1) aci_update_split by simp
    with assms(2) show ?thesis
      by (simp only: set_append Un_iff list.set insert_iff empty_iff) blast
  qed
  ultimately show ?thesis
    by (simp only: list_all_iff)
qed

text \<open>
  C4, as the specification states it: every value that the update files add or remove
  conforms to the grammar. The update file removes, from \<^verbatim>\<open>cn=config\<close>, a value whose body
  names the instruction with the keyword \<^verbatim>\<open>aci\<close>, where the grammar has \<^verbatim>\<open>acl\<close> and a quoted
  name.
\<close>

theorem replica_admins_read_access_counterexample:
  \<open>(Remove, ''cn=config'',
     ''(targetattr != aci)(version 3.0; aci "replica admins read access"; allow (read, search, compare) groupdn = "ldap:///cn=Modify Replication Agreements,cn=permissions,cn=pbac,$SUFFIX";)'')
     \<in> set aci_update \<and>
   \<not> conforms ''(targetattr != aci)(version 3.0; aci "replica admins read access"; allow (read, search, compare) groupdn = "ldap:///cn=Modify Replication Agreements,cn=permissions,cn=pbac,$SUFFIX";)''\<close>
proof -
  have "aci_update ! 20 \<in> set aci_update"
    by (rule nth_mem) (simp add: length_aci_update)
  moreover have "\<not> conforms (aci_value (aci_update ! 20))"
    by (rule aci_update_20_acl)
  ultimately show ?thesis
    by (simp add: aci_update_20 aci_value_def)
qed

text \<open>
  C4, amended: every value that the update files add conforms to the grammar, and so
  does every value they remove, but for one: the obsolete value \<^verbatim>\<open>replica admins read access\<close>
  removed from \<^verbatim>\<open>cn=config\<close>, the entry 20 of the update file, which has the keyword \<^verbatim>\<open>aci\<close>
  before its quoted name and conforms to the grammar in everything else.
\<close>

theorem aci_values_conform:
  "(\<forall>e \<in> set (aci_update @ replica_acis). e \<noteq> aci_update ! 20 \<longrightarrow> conforms (aci_value e)) \<and>
   (\<forall>e \<in> set (aci_update @ replica_acis). aci_action e = Add \<longrightarrow> conforms (aci_value e)) \<and>
   aci_action (aci_update ! 20) = Remove \<and>
   aci_syntax [''aci''] (aci_value (aci_update ! 20))"
proof -
  have others: "conforms (aci_value e)"
    if "e \<in> set (aci_update @ replica_acis)" and "e \<noteq> aci_update ! 20" for e
  proof (cases "e \<in> set aci_update")
    case True
    then show ?thesis using that(2) by (rule aci_update_others)
  next
    case False
    with that(1) have "e \<in> set replica_acis" by simp
    with replica_acis_conform show ?thesis
      by (simp only: list_all_iff)
  qed
  have removed: "aci_action (aci_update ! 20) = Remove"
    by (simp add: aci_update_20 aci_action_def)
  have added: "conforms (aci_value e)"
    if "e \<in> set (aci_update @ replica_acis)" and "aci_action e = Add" for e
  proof -
    from that(2) removed have "e \<noteq> aci_update ! 20" by auto
    with that(1) show ?thesis by (rule others)
  qed
  from others added removed aci_update_20_aci show ?thesis
    by blast
qed

theorem aci_values_conform_witness:
  "replica_acis ! 0 \<in> set (aci_update @ replica_acis) \<and>
   replica_acis ! 0 \<noteq> aci_update ! 20 \<and>
   aci_action (replica_acis ! 0) = Add \<and>
   conforms (aci_value (replica_acis ! 0))"
proof -
  have m: "replica_acis ! 0 \<in> set (aci_update @ replica_acis)"
    by (simp add: replica_acis_def)
  have n: "replica_acis ! 0 \<noteq> aci_update ! 20"
    by (simp add: aci_update_20) (simp add: replica_acis_def)
  have a: "aci_action (replica_acis ! 0) = Add"
    by (simp add: replica_acis_def aci_action_def)
  from aci_values_conform m n have "conforms (aci_value (replica_acis ! 0))"
    by blast
  with m n a show ?thesis by (intro conjI)
qed

end
